theory Spec2Isabelle
  imports Complex_Main
begin

section \<open>Values, series and errors\<close>

text \<open>
  A series value is a double. Finite doubles are idealised as real numbers (rounding,
  overflow and the sign of zero are not modelled); the two infinities and the missing
  marker NaN are kept apart, since the operations below treat them specially.
\<close>

datatype fval = Fin real | PInf | NInf | NaN

text \<open>
  A \<open>pd.Series\<close> is an ordered sequence of (label, value) pairs. Labels are dates,
  written as day ordinals, or the positions 0, 1, 2, ... of a series built from a list.
\<close>

type_synonym series = "(int \<times> fval) list"

datatype tsval = Scalar fval | Series series

datatype error = AssertionError | AttributeError | ValueError | ValueConstraintError

definition index_of :: "series \<Rightarrow> int list" where
  "index_of s = map fst s"

definition values_of :: "series \<Rightarrow> fval list" where
  "values_of s = map snd s"

text \<open>\<open>pd.Series(values)\<close>: the default index is 0, 1, ..., n - 1.\<close>

definition pd_Series :: "fval list \<Rightarrow> series" where
  "pd_Series vs = zip (map int [0..<length vs]) vs"

text \<open>\<open>x.apply(f)\<close>: \<open>f\<close> on every value, the index kept.\<close>

definition apply_series :: "(fval \<Rightarrow> fval) \<Rightarrow> series \<Rightarrow> series" where
  "apply_series f s = map (\<lambda>p. (fst p, f (snd p))) s"

text \<open>
  \<open>Index.is_monotonic_increasing\<close>: true when each label is equal to or greater than
  the one before it. \<open>strictly_ascending\<close> is the invariant of a timeseries: each label
  greater than the one before it.
\<close>

definition is_monotonic_increasing :: "int list \<Rightarrow> bool" where
  "is_monotonic_increasing ts = sorted_wrt (\<le>) ts"

definition strictly_ascending :: "int list \<Rightarrow> bool" where
  "strictly_ascending ts = sorted_wrt (<) ts"

section \<open>Arithmetic on values\<close>

definition inf_of :: "bool \<Rightarrow> fval" where
  "inf_of positive = (if positive then PInf else NInf)"

text \<open>The comparison \<open>a < b\<close> of two doubles: false whenever one of them is NaN.\<close>

fun fless :: "fval \<Rightarrow> fval \<Rightarrow> bool" where
  "fless NaN _ = False"
| "fless _ NaN = False"
| "fless (Fin a) (Fin b) = (a < b)"
| "fless (Fin a) PInf = True"
| "fless (Fin a) NInf = False"
| "fless PInf _ = False"
| "fless NInf NInf = False"
| "fless NInf _ = True"

fun fneg :: "fval \<Rightarrow> fval" where
  "fneg (Fin a) = Fin (- a)"
| "fneg PInf = NInf"
| "fneg NInf = PInf"
| "fneg NaN = NaN"

fun fadd :: "fval \<Rightarrow> fval \<Rightarrow> fval" where
  "fadd NaN _ = NaN"
| "fadd _ NaN = NaN"
| "fadd (Fin a) (Fin b) = Fin (a + b)"
| "fadd PInf NInf = NaN"
| "fadd NInf PInf = NaN"
| "fadd PInf _ = PInf"
| "fadd _ PInf = PInf"
| "fadd NInf _ = NInf"
| "fadd _ NInf = NInf"

definition fsub :: "fval \<Rightarrow> fval \<Rightarrow> fval" where
  "fsub a b = fadd a (fneg b)"

fun fmul :: "fval \<Rightarrow> fval \<Rightarrow> fval" where
  "fmul NaN _ = NaN"
| "fmul _ NaN = NaN"
| "fmul (Fin a) (Fin b) = Fin (a * b)"
| "fmul PInf (Fin b) = (if b = 0 then NaN else inf_of (0 < b))"
| "fmul NInf (Fin b) = (if b = 0 then NaN else inf_of (b < 0))"
| "fmul (Fin a) PInf = (if a = 0 then NaN else inf_of (0 < a))"
| "fmul (Fin a) NInf = (if a = 0 then NaN else inf_of (a < 0))"
| "fmul PInf PInf = PInf"
| "fmul PInf NInf = NInf"
| "fmul NInf PInf = NInf"
| "fmul NInf NInf = PInf"

text \<open>
  Division does not raise on a zero denominator: a non-zero numerator gives the infinity
  of its sign, zero by zero gives NaN.
\<close>

fun fdiv :: "fval \<Rightarrow> fval \<Rightarrow> fval" where
  "fdiv NaN _ = NaN"
| "fdiv _ NaN = NaN"
| "fdiv (Fin a) (Fin b) =
     (if b = 0 then (if a = 0 then NaN else inf_of (0 < a)) else Fin (a / b))"
| "fdiv (Fin a) PInf = Fin 0"
| "fdiv (Fin a) NInf = Fin 0"
| "fdiv PInf (Fin b) = inf_of (0 \<le> b)"
| "fdiv NInf (Fin b) = inf_of (b < 0)"
| "fdiv PInf PInf = NaN"
| "fdiv PInf NInf = NaN"
| "fdiv NInf PInf = NaN"
| "fdiv NInf NInf = NaN"

text \<open>
  Python's \<open>max(y, value)\<close> keeps its first argument unless the second is greater,
  and \<open>min(y, value)\<close> keeps it unless the second is smaller.
\<close>

definition py_max :: "fval \<Rightarrow> fval \<Rightarrow> fval" where
  "py_max y v = (if fless y v then v else y)"

definition py_min :: "fval \<Rightarrow> fval \<Rightarrow> fval" where
  "py_min y v = (if fless v y then v else y)"

text \<open>
  \<open>np.sqrt\<close> gives NaN below zero; \<open>math.sqrt\<close> raises ValueError (math domain
  error) there.
\<close>

fun np_sqrt :: "fval \<Rightarrow> fval" where
  "np_sqrt (Fin a) = (if a < 0 then NaN else Fin (sqrt a))"
| "np_sqrt PInf = PInf"
| "np_sqrt NInf = NaN"
| "np_sqrt NaN = NaN"

fun math_sqrt :: "fval \<Rightarrow> error + fval" where
  "math_sqrt (Fin a) = (if a < 0 then Inl ValueError else Inr (Fin (sqrt a)))"
| "math_sqrt PInf = Inr PInf"
| "math_sqrt NInf = Inl ValueError"
| "math_sqrt NaN = Inr NaN"

text \<open>
  \<open>np.power\<close> on doubles: anything to the power 0 is 1, and 1 to any power is 1, also
  for NaN; a negative base has a real power only for an integral exponent, whose parity
  gives the sign.
\<close>

definition is_integral :: "real \<Rightarrow> bool" where
  "is_integral b = (b = of_int \<lfloor>b\<rfloor>)"

definition odd_integral :: "real \<Rightarrow> bool" where
  "odd_integral b = (is_integral b \<and> odd \<lfloor>b\<rfloor>)"

fun np_power :: "fval \<Rightarrow> fval \<Rightarrow> fval" where
  "np_power x (Fin b) =
     (if b = 0 then Fin 1
      else case x of
        NaN \<Rightarrow> NaN
      | PInf \<Rightarrow> (if 0 < b then PInf else Fin 0)
      | NInf \<Rightarrow> (if 0 < b then inf_of (\<not> odd_integral b) else Fin 0)
      | Fin a \<Rightarrow>
          (if 0 < a then Fin (a powr b)
           else if a = 0 then (if 0 < b then Fin 0 else PInf)
           else if is_integral b
             then Fin ((if odd_integral b then - 1 else 1) * ((- a) powr b))
           else NaN))"
| "np_power x NaN = (if x = Fin 1 then Fin 1 else NaN)"
| "np_power x PInf =
     (case x of
        NaN \<Rightarrow> NaN
      | PInf \<Rightarrow> PInf
      | NInf \<Rightarrow> PInf
      | Fin a \<Rightarrow> (if \<bar>a\<bar> < 1 then Fin 0 else if \<bar>a\<bar> = 1 then Fin 1 else PInf))"
| "np_power x NInf =
     (case x of
        NaN \<Rightarrow> NaN
      | PInf \<Rightarrow> Fin 0
      | NInf \<Rightarrow> Fin 0
      | Fin a \<Rightarrow> (if \<bar>a\<bar> < 1 then PInf else if \<bar>a\<bar> = 1 then Fin 1 else Fin 0))"

section \<open>The alignment engine\<close>

text \<open>
  The interpolation methods, as the tables in the docstrings of \<open>add\<close>, \<open>multiply\<close>
  and \<open>divide\<close> list them: intersect, nan, zero, step.
\<close>

datatype Interpolate = INTERSECT | NAN | ZERO | STEP

type_synonym aligner = "tsval \<Rightarrow> tsval \<Rightarrow> Interpolate \<Rightarrow> error + (tsval \<times> tsval)"

text \<open>The sorted union and the sorted intersection of two timestamp sets.\<close>

definition union_index :: "int list \<Rightarrow> int list \<Rightarrow> int list" where
  "union_index xs ys = sort (remdups (xs @ ys))"

definition inter_index :: "int list \<Rightarrow> int list \<Rightarrow> int list" where
  "inter_index xs ys = sort (remdups (filter (\<lambda>t. t \<in> set ys) xs))"

text \<open>
  The most recent observation of a side strictly before \<open>t\<close>; the missing marker when
  the side has none.
\<close>

definition prior_value :: "series \<Rightarrow> int \<Rightarrow> fval" where
  "prior_value s t =
     (case filter (\<lambda>p. fst p < t) s of [] \<Rightarrow> NaN | p # ps \<Rightarrow> snd (last (p # ps)))"

text \<open>
  A side on a new index: its own value where it has one, the substitute otherwise.
\<close>

definition reindex :: "(int \<Rightarrow> fval) \<Rightarrow> series \<Rightarrow> int list \<Rightarrow> series" where
  "reindex missing s ts =
     map (\<lambda>t. (t, case map_of s t of Some v \<Rightarrow> v | None \<Rightarrow> missing t)) ts"

definition broadcast :: "fval \<Rightarrow> series \<Rightarrow> series" where
  "broadcast c s = map (\<lambda>p. (fst p, c)) s"

text \<open>
  Modelled from the spec: \<open>align\<close> of \<open>gs_quant.timeseries.datetime\<close>, which the
  operators import and call. Two scalars are returned unchanged. A scalar beside a series
  is broadcast to every timestamp of the series. Two series are put on the intersection
  of their timestamps (INTERSECT) or on the union, a side absent at a timestamp taking the
  missing marker (NAN), zero (ZERO) or its most recent prior value, the missing marker
  when there is none (STEP). A series whose timestamps are not strictly ascending fails
  with a ValueConstraintError.
\<close>

definition align_series :: "series \<Rightarrow> series \<Rightarrow> Interpolate \<Rightarrow> series \<times> series" where
  "align_series x y m =
     (case m of
        INTERSECT \<Rightarrow>
          (let ts = inter_index (index_of x) (index_of y)
           in (reindex (\<lambda>t. NaN) x ts, reindex (\<lambda>t. NaN) y ts))
      | NAN \<Rightarrow>
          (let ts = union_index (index_of x) (index_of y)
           in (reindex (\<lambda>t. NaN) x ts, reindex (\<lambda>t. NaN) y ts))
      | ZERO \<Rightarrow>
          (let ts = union_index (index_of x) (index_of y)
           in (reindex (\<lambda>t. Fin 0) x ts, reindex (\<lambda>t. Fin 0) y ts))
      | STEP \<Rightarrow>
          (let ts = union_index (index_of x) (index_of y)
           in (reindex (prior_value x) x ts, reindex (prior_value y) y ts)))"

fun align :: aligner where
  "align (Scalar a) (Scalar b) m = Inr (Scalar a, Scalar b)"
| "align (Scalar a) (Series y) m =
     (if strictly_ascending (index_of y)
      then Inr (Series (broadcast a y), Series y)
      else Inl ValueConstraintError)"
| "align (Series x) (Scalar b) m =
     (if strictly_ascending (index_of x)
      then Inr (Series x, Series (broadcast b x))
      else Inl ValueConstraintError)"
| "align (Series x) (Series y) m =
     (if strictly_ascending (index_of x) \<and> strictly_ascending (index_of y)
      then (case align_series x y m of (xa, ya) \<Rightarrow> Inr (Series xa, Series ya))
      else Inl ValueConstraintError)"

section \<open>The operators\<close>

text \<open>
  \<open>x_align.add(y_align)\<close> and its siblings. A Python number has no such method, so a
  scalar receiver raises AttributeError. A series receiver combines value by value with a
  scalar, or with a series of the same index; two series of different indices are first
  put on the union of their labels, NaN where a side has none.
\<close>

definition combine :: "(fval \<Rightarrow> fval \<Rightarrow> fval) \<Rightarrow> series \<Rightarrow> series \<Rightarrow> series" where
  "combine f x y =
     (if index_of x = index_of y
      then map (\<lambda>(p, q). (fst p, f (snd p) (snd q))) (zip x y)
      else (let ts = union_index (index_of x) (index_of y)
            in map (\<lambda>(p, q). (fst p, f (snd p) (snd q)))
                 (zip (reindex (\<lambda>t. NaN) x ts) (reindex (\<lambda>t. NaN) y ts))))"

fun flex :: "(fval \<Rightarrow> fval \<Rightarrow> fval) \<Rightarrow> tsval \<Rightarrow> tsval \<Rightarrow> error + tsval" where
  "flex f (Scalar a) y = Inl AttributeError"
| "flex f (Series x) (Scalar b) = Inr (Series (apply_series (\<lambda>v. f v b) x))"
| "flex f (Series x) (Series y) = Inr (Series (combine f x y))"

text \<open>
  The four binary operators: align, then combine. The aligner is the imported
  \<open>align\<close>, passed in; \<open>method\<close> defaults to STEP.
\<close>

definition add :: "aligner \<Rightarrow> tsval \<Rightarrow> tsval \<Rightarrow> Interpolate \<Rightarrow> error + tsval" where
  "add al x y method =
     (case al x y method of Inl e \<Rightarrow> Inl e | Inr (x_align, y_align) \<Rightarrow> flex fadd x_align y_align)"

definition subtract :: "aligner \<Rightarrow> tsval \<Rightarrow> tsval \<Rightarrow> Interpolate \<Rightarrow> error + tsval" where
  "subtract al x y method =
     (case al x y method of Inl e \<Rightarrow> Inl e | Inr (x_align, y_align) \<Rightarrow> flex fsub x_align y_align)"

definition multiply :: "aligner \<Rightarrow> tsval \<Rightarrow> tsval \<Rightarrow> Interpolate \<Rightarrow> error + tsval" where
  "multiply al x y method =
     (case al x y method of Inl e \<Rightarrow> Inl e | Inr (x_align, y_align) \<Rightarrow> flex fmul x_align y_align)"

definition divide_ts :: "aligner \<Rightarrow> tsval \<Rightarrow> tsval \<Rightarrow> Interpolate \<Rightarrow> error + tsval" where
  "divide_ts al x y method =
     (case al x y method of Inl e \<Rightarrow> Inl e | Inr (x_align, y_align) \<Rightarrow> flex fdiv x_align y_align)"

text \<open>\<open>power(x, y)\<close> is \<open>np.power(x, y)\<close>; \<open>y\<close> defaults to 1.\<close>

definition power_ts :: "series \<Rightarrow> fval \<Rightarrow> series" where
  "power_ts x y = apply_series (\<lambda>v. np_power v y) x"

text \<open>\<open>sqrt\<close>: \<open>np.sqrt\<close> on a series, \<open>math.sqrt\<close> on anything else.\<close>

fun sqrt_ts :: "tsval \<Rightarrow> error + tsval" where
  "sqrt_ts (Series x) = Inr (Series (apply_series np_sqrt x))"
| "sqrt_ts (Scalar a) = (case math_sqrt a of Inl e \<Rightarrow> Inl e | Inr r \<Rightarrow> Inr (Scalar r))"

text \<open>
  \<open>floor\<close> and \<open>ceil\<close>: the assertion on the index first, then \<open>max\<close> (\<open>min\<close>) of
  every value and \<open>value\<close>, which defaults to 0.
\<close>

definition floor_ts :: "series \<Rightarrow> fval \<Rightarrow> error + series" where
  "floor_ts x v =
     (if is_monotonic_increasing (index_of x)
      then Inr (apply_series (\<lambda>y. py_max y v) x)
      else Inl AssertionError)"

definition ceil :: "series \<Rightarrow> fval \<Rightarrow> error + series" where
  "ceil x v =
     (if is_monotonic_increasing (index_of x)
      then Inr (apply_series (\<lambda>y. py_min y v) x)
      else Inl AssertionError)"

section \<open>Data of the scenarios and observations on results\<close>

text \<open>
  The two series of the alignment scenario: \<open>a\<close> has 1 on 2020-01-01 and 3 on
  2020-01-03, \<open>b\<close> has 2 on 2020-01-02 and 4 on 2020-01-03. A date is its day
  ordinal: 2020-01-01 is day 737425.
\<close>

definition scenario_a :: series where
  "scenario_a = [(737425, Fin 1), (737427, Fin 3)]"

definition scenario_b :: series where
  "scenario_b = [(737426, Fin 2), (737427, Fin 4)]"

text \<open>What a caller sees of the index of a result: the error, or the list of labels.\<close>

definition result_index :: "error + tsval \<Rightarrow> error + int list" where
  "result_index r =
     (case r of Inl e \<Rightarrow> Inl e | Inr (Scalar a) \<Rightarrow> Inr [] | Inr (Series s) \<Rightarrow> Inr (index_of s))"

section \<open>Basic facts\<close>

lemma index_of_apply_series: "index_of (apply_series f s) = index_of s"
  by (simp add: index_of_def apply_series_def comp_def)

lemma apply_series_zip: "apply_series f s = zip (index_of s) (map f (values_of s))"
  by (induction s) (simp_all add: apply_series_def index_of_def values_of_def)

lemma index_of_reindex: "index_of (reindex d s ts) = ts"
  by (simp add: index_of_def reindex_def comp_def)

lemma index_of_broadcast: "index_of (broadcast c s) = index_of s"
  by (simp add: index_of_def broadcast_def comp_def)

lemma same_index_same_length: "index_of x = index_of y \<Longrightarrow> length x = length y"
  by (metis index_of_def length_map)

lemma index_of_combine: "index_of (combine f x y) = index_of (combine g x y)"
  by (simp add: combine_def index_of_def split_def Let_def)

lemma combine_same_index:
  "index_of x = index_of y \<Longrightarrow>
   combine f x y = map (\<lambda>(p, q). (fst p, f (snd p) (snd q))) (zip x y)"
  by (simp add: combine_def)

lemma index_of_combine_same:
  assumes "index_of x = index_of y"
  shows "index_of (combine f x y) = index_of y"
proof -
  have "length x = length y"
    using assms by (rule same_index_same_length)
  then have "map fst (map (\<lambda>(p, q). (fst p, f (snd p) (snd q))) (zip x y)) = map fst x"
    by (induction x y rule: list_induct2) simp_all
  then show ?thesis
    using assms by (simp add: combine_same_index index_of_def)
qed

lemma combine_nth:
  assumes "index_of x = index_of y" and "i < length y"
  shows "snd (combine f x y ! i) = f (snd (x ! i)) (snd (y ! i))"
proof -
  have "length x = length y"
    using assms(1) by (rule same_index_same_length)
  then show ?thesis
    using assms by (simp add: combine_same_index)
qed

lemma combine_broadcast: "combine f x (broadcast c x) = apply_series (\<lambda>v. f v c) x"
proof -
  have "map (\<lambda>(p, q). (fst p, f (snd p) (snd q))) (zip x (broadcast c x)) =
        apply_series (\<lambda>v. f v c) x"
    by (induction x) (simp_all add: broadcast_def apply_series_def)
  then show ?thesis
    by (simp add: combine_same_index index_of_broadcast)
qed

lemma align_series_index: "align_series x y m = (xa, ya) \<Longrightarrow> index_of xa = index_of ya"
  by (cases m) (auto simp: align_series_def Let_def index_of_reindex)

lemma result_index_flex: "result_index (flex f xa ya) = result_index (flex g xa ya)"
proof (cases xa)
  case (Scalar a)
  then show ?thesis by simp
next
  case (Series x)
  then show ?thesis
    by (cases ya)
      (simp_all add: result_index_def index_of_apply_series index_of_combine [of f _ _ g])
qed

lemma fadd_zero: "fadd v (Fin 0) = v"
  by (cases v) simp_all

lemma fdiv_zero: "fdiv v (Fin 0) \<in> {PInf, NInf, NaN}"
  by (cases v) (simp_all add: inf_of_def)

lemma np_power_one: "np_power v (Fin 1) = v"
  by (cases v) (auto simp: inf_of_def odd_integral_def is_integral_def)

lemma py_max_real: "py_max (Fin a) (Fin b) = Fin (max a b)"
  by (simp add: py_max_def max_def)

lemma py_min_real: "py_min (Fin a) (Fin b) = Fin (min a b)"
  by (simp add: py_min_def min_def)

lemma strict_is_monotonic: "strictly_ascending ts \<Longrightarrow> is_monotonic_increasing ts"
  unfolding strictly_ascending_def is_monotonic_increasing_def
  by (rule sorted_wrt_mono_rel [of ts "(<)"]) simp_all

section \<open>The alignment scenario under STEP\<close>





section \<open>One index for the four binary operators\<close>

text \<open>
  C2: for every pair of timeseries \<open>a\<close> and \<open>b\<close> and every method \<open>m\<close>, the
  results of \<open>add\<close>, \<open>subtract\<close>, \<open>multiply\<close> and \<open>divide\<close> have the same index
  (and when one of them fails, all four fail with the same error). This holds whatever
  the aligner does, since the four operators hand it the same arguments and the index
  of the combination does not depend on the arithmetic.
\<close>

theorem operators_share_index:
  "result_index (add al (Series a) (Series b) m) =
     result_index (subtract al (Series a) (Series b) m)
   \<and> result_index (subtract al (Series a) (Series b) m) =
     result_index (multiply al (Series a) (Series b) m)
   \<and> result_index (multiply al (Series a) (Series b) m) =
     result_index (divide_ts al (Series a) (Series b) m)"
proof (cases "al (Series a) (Series b) m")
  case (Inl e)
  then show ?thesis
    by (simp add: add_def subtract_def multiply_def divide_ts_def)
next
  case (Inr p)
  obtain xa ya where p: "p = (xa, ya)" by (cases p)
  show ?thesis
    using Inr p result_index_flex [of fadd xa ya fsub] result_index_flex [of fsub xa ya fmul]
      result_index_flex [of fmul xa ya fdiv]
    by (simp add: add_def subtract_def multiply_def divide_ts_def)
qed

theorem operators_share_index_witness:
  "result_index (add align (Series scenario_a) (Series scenario_b) STEP) =
     Inr [737425, 737426, 737427]
   \<and> result_index (divide_ts align (Series scenario_a) (Series scenario_b) STEP) =
     Inr [737425, 737426, 737427]"
proof -
  have "result_index (add align (Series scenario_a) (Series scenario_b) STEP) =
     Inr [737425, 737426, 737427]"
    by (simp add: scenario_a_def scenario_b_def add_def strictly_ascending_def index_of_def
        align_series_def union_index_def reindex_def combine_def result_index_def)
  then show ?thesis
    using operators_share_index [of align scenario_a scenario_b STEP] by simp
qed

section \<open>floor and ceil\<close>

text \<open>
  C3, as the code has it: for every series \<open>x\<close> whose timestamps are not
  non-decreasing (some timestamp is smaller than the one before it) and every value
  \<open>v\<close>, \<open>floor(x, v)\<close> and \<open>ceil(x, v)\<close> fail with an AssertionError: the check is
  the assertion \<open>x.index.is_monotonic_increasing\<close>.
\<close>

theorem floor_ceil_assertion:
  "\<not> is_monotonic_increasing (index_of x) \<Longrightarrow>
   floor_ts x v = Inl AssertionError \<and> ceil x v = Inl AssertionError"
  by (simp add: floor_ts_def ceil_def)

theorem floor_ceil_assertion_witness:
  "\<not> is_monotonic_increasing (index_of [(2, Fin 1), (1, Fin 2)])
   \<and> floor_ts [(2, Fin 1), (1, Fin 2)] (Fin 0) = Inl AssertionError
   \<and> ceil [(2, Fin 1), (1, Fin 2)] (Fin 0) = Inl AssertionError"
  using floor_ceil_assertion [of "[(2, Fin 1), (1, Fin 2)]" "Fin 0"]
  by (simp add: is_monotonic_increasing_def index_of_def)

text \<open>
  A series with a repeated timestamp is not strictly ascending, and both functions
  return a result for it.
\<close>

theorem floor_ceil_repeated_counterexample:
  "\<not> strictly_ascending (index_of [(1, Fin 1), (1, Fin 2)])
   \<and> floor_ts [(1, Fin 1), (1, Fin 2)] (Fin 0) = Inr [(1, Fin 1), (1, Fin 2)]
   \<and> ceil [(1, Fin 1), (1, Fin 2)] (Fin 0) = Inr [(1, Fin 0), (1, Fin 0)]"
  by (simp add: strictly_ascending_def index_of_def floor_ts_def ceil_def
      is_monotonic_increasing_def apply_series_def py_max_def py_min_def)

text \<open>
  C4: for every series \<open>x\<close> with strictly ascending timestamps and every value \<open>v\<close>,
  \<open>floor(x, v)\<close> returns a series with the index of \<open>x\<close> whose value at each
  timestamp is \<open>max(X_t, v)\<close>, which for two numbers is the greater of them; and
  \<open>floor(series([-5, 0, 5]), 0)\<close> is [0, 0, 5].
\<close>

theorem floor_max:
  "strictly_ascending (index_of x) \<Longrightarrow>
   floor_ts x v = Inr (zip (index_of x) (map (\<lambda>y. py_max y v) (values_of x)))
   \<and> py_max (Fin a) (Fin b) = Fin (max a b)
   \<and> floor_ts (pd_Series [Fin (- 5), Fin 0, Fin 5]) (Fin 0) =
       Inr (pd_Series [Fin 0, Fin 0, Fin 5])"
proof -
  assume "strictly_ascending (index_of x)"
  then have "floor_ts x v = Inr (zip (index_of x) (map (\<lambda>y. py_max y v) (values_of x)))"
    using apply_series_zip [of "\<lambda>y. py_max y v" x]
    by (simp add: floor_ts_def strict_is_monotonic)
  moreover have "floor_ts (pd_Series [Fin (- 5), Fin 0, Fin 5]) (Fin 0) =
      Inr (pd_Series [Fin 0, Fin 0, Fin 5])"
    by (simp add: floor_ts_def pd_Series_def index_of_def is_monotonic_increasing_def
        apply_series_def py_max_def upt_rec)
  ultimately show ?thesis
    by (simp add: py_max_real)
qed

theorem floor_max_witness:
  "strictly_ascending (index_of [(737425, Fin (- 2)), (737426, Fin 8)])
   \<and> floor_ts [(737425, Fin (- 2)), (737426, Fin 8)] (Fin 3) =
       Inr [(737425, Fin 3), (737426, Fin 8)]"
  using floor_max [of "[(737425, Fin (- 2)), (737426, Fin 8)]" "Fin 3" 0 0]
  by (simp add: strictly_ascending_def index_of_def values_of_def py_max_def)

text \<open>
  C5: for every series \<open>x\<close> with strictly ascending timestamps and every value \<open>v\<close>,
  \<open>ceil(x, v)\<close> returns a series with the index of \<open>x\<close> whose value at each
  timestamp is \<open>min(X_t, v)\<close>, which for two numbers is the smaller of them.
\<close>

theorem ceil_min:
  "strictly_ascending (index_of x) \<Longrightarrow>
   ceil x v = Inr (zip (index_of x) (map (\<lambda>y. py_min y v) (values_of x)))
   \<and> py_min (Fin a) (Fin b) = Fin (min a b)"
  using apply_series_zip [of "\<lambda>y. py_min y v" x]
  by (simp add: ceil_def strict_is_monotonic py_min_real)

theorem ceil_min_witness:
  "strictly_ascending (index_of [(737425, Fin (- 2)), (737426, Fin 8)])
   \<and> ceil [(737425, Fin (- 2)), (737426, Fin 8)] (Fin 3) =
       Inr [(737425, Fin (- 2)), (737426, Fin 3)]"
  using ceil_min [of "[(737425, Fin (- 2)), (737426, Fin 8)]" "Fin 3" 0 0]
  by (simp add: strictly_ascending_def index_of_def values_of_def py_min_def)

section \<open>Adding the scalar zero\<close>

text \<open>
  C6: for every timeseries \<open>a\<close> (its timestamps strictly ascending, as a timeseries
  has them), \<open>add(a, 0, ZERO)\<close> is \<open>a\<close>: the same index and the same values.
\<close>

theorem add_zero_identity:
  "strictly_ascending (index_of a) \<Longrightarrow>
   add align (Series a) (Scalar (Fin 0)) ZERO = Inr (Series a)"
  by (simp add: add_def combine_broadcast fadd_zero apply_series_def)

theorem add_zero_identity_witness:
  "strictly_ascending (index_of scenario_a)
   \<and> add align (Series scenario_a) (Scalar (Fin 0)) ZERO = Inr (Series scenario_a)"
proof -
  have h: "strictly_ascending (index_of scenario_a)"
    by (simp add: scenario_a_def strictly_ascending_def index_of_def)
  show ?thesis
    using h add_zero_identity [OF h] by simp
qed

section \<open>sqrt\<close>

text \<open>
  C7, as the code has it: \<open>sqrt\<close> of a series is a series with the same index, the
  square root taken of every value, and a negative value gives NaN there, with no error;
  \<open>sqrt\<close> of a scalar that is not negative is a scalar; \<open>sqrt\<close> of a negative
  scalar raises a ValueError.
\<close>

theorem sqrt_shape:
  "sqrt_ts (Series x) = Inr (Series (zip (index_of x) (map np_sqrt (values_of x))))
   \<and> (a < 0 \<longrightarrow> np_sqrt (Fin a) = NaN)
   \<and> (0 \<le> b \<longrightarrow> sqrt_ts (Scalar (Fin b)) = Inr (Scalar (Fin (sqrt b))))
   \<and> (c < 0 \<longrightarrow> sqrt_ts (Scalar (Fin c)) = Inl ValueError)"
  using apply_series_zip [of np_sqrt x] by simp

theorem sqrt_shape_witness:
  "sqrt_ts (Series [(737425, Fin (- 4)), (737426, Fin 4)]) =
     Inr (Series [(737425, NaN), (737426, Fin 2)])
   \<and> np_sqrt (Fin (- 4)) = NaN
   \<and> sqrt_ts (Scalar (Fin 4)) = Inr (Scalar (Fin 2))
   \<and> sqrt_ts (Scalar (Fin (- 4))) = Inl ValueError"
  using sqrt_shape [of "[(737425, Fin (- 4)), (737426, Fin 4)]" "- 4" 4 "- 4"]
  by (simp add: index_of_def values_of_def)

text \<open>A negative scalar is an error, not NaN.\<close>

theorem sqrt_negative_scalar_counterexample:
  "sqrt_ts (Scalar (Fin (- 1))) = Inl ValueError"
  by simp

section \<open>Division by zero\<close>

text \<open>
  C8: for two timeseries \<open>a\<close> and \<open>b\<close> and a method \<open>m\<close>, let \<open>xa\<close> and \<open>ya\<close> be
  the aligned pair. Then \<open>divide(a, b, m)\<close> does not fail, its result has the index
  of the aligned pair, and at every position where the aligned denominator is zero the
  value of the result is the quotient by zero of the doubles: an infinity or NaN. In
  particular \<open>divide(series([10]), series([0]), INTERSECT)\<close> is [inf].
\<close>

theorem divide_by_zero:
  assumes "strictly_ascending (index_of a)" and "strictly_ascending (index_of b)"
    and "align_series a b m = (xa, ya)" and "i < length ya" and "snd (ya ! i) = Fin 0"
  shows "align (Series a) (Series b) m = Inr (Series xa, Series ya)
    \<and> divide_ts align (Series a) (Series b) m = Inr (Series (combine fdiv xa ya))
    \<and> index_of (combine fdiv xa ya) = index_of ya
    \<and> snd (combine fdiv xa ya ! i) = fdiv (snd (xa ! i)) (Fin 0)
    \<and> snd (combine fdiv xa ya ! i) \<in> {PInf, NInf, NaN}
    \<and> divide_ts align (Series (pd_Series [Fin 10])) (Series (pd_Series [Fin 0])) INTERSECT =
        Inr (Series (pd_Series [PInf]))"
proof -
  have idx: "index_of xa = index_of ya"
    using assms(3) by (rule align_series_index)
  have al: "align (Series a) (Series b) m = Inr (Series xa, Series ya)"
    using assms(1,2,3) by simp
  have dv: "divide_ts align (Series a) (Series b) m = Inr (Series (combine fdiv xa ya))"
    using al by (simp add: divide_ts_def)
  have v: "snd (combine fdiv xa ya ! i) = fdiv (snd (xa ! i)) (Fin 0)"
    using combine_nth [OF idx assms(4), of fdiv] assms(5) by simp
  have sc: "divide_ts align (Series (pd_Series [Fin 10])) (Series (pd_Series [Fin 0])) INTERSECT =
        Inr (Series (pd_Series [PInf]))"
    by (simp add: divide_ts_def pd_Series_def strictly_ascending_def index_of_def
        align_series_def inter_index_def reindex_def combine_def inf_of_def)
  show ?thesis
    using al dv v sc index_of_combine_same [OF idx, of fdiv] fdiv_zero [of "snd (xa ! i)"]
    by simp
qed

theorem divide_by_zero_witness:
  "divide_ts align (Series [(1, Fin 5), (2, Fin (- 3)), (3, Fin 0)])
      (Series [(1, Fin 0), (2, Fin 0)]) ZERO =
     Inr (Series [(1, PInf), (2, NInf), (3, NaN)])"
proof -
  have al: "align_series [(1, Fin 5), (2, Fin (- 3)), (3, Fin 0)] [(1, Fin 0), (2, Fin 0)] ZERO =
      ([(1, Fin 5), (2, Fin (- 3)), (3, Fin 0)], [(1, Fin 0), (2, Fin 0), (3, Fin 0)])"
    by (simp add: align_series_def union_index_def index_of_def reindex_def)
  have "divide_ts align (Series [(1, Fin 5), (2, Fin (- 3)), (3, Fin 0)])
      (Series [(1, Fin 0), (2, Fin 0)]) ZERO =
     Inr (Series (combine fdiv [(1, Fin 5), (2, Fin (- 3)), (3, Fin 0)]
       [(1, Fin 0), (2, Fin 0), (3, Fin 0)]))"
    using divide_by_zero [OF _ _ al, of 1]
    by (simp add: strictly_ascending_def index_of_def)
  then show ?thesis
    by (simp add: combine_def index_of_def inf_of_def)
qed

section \<open>power with its default exponent\<close>

text \<open>
  C10: for every timeseries \<open>x\<close>, \<open>power(x)\<close> with the default exponent 1 returns
  \<open>x\<close>: the same index and, at every timestamp, the same value.
\<close>

theorem power_default_identity: "power_ts x (Fin 1) = x"
  by (simp add: power_ts_def np_power_one apply_series_def del: np_power.simps)

end
